theory Spec2Isabelle
  imports Main "HOL-Library.Word"
begin

section \<open>Shapes, strides and outcomes\<close>

text \<open>
  The templates of \<^verbatim>\<open>broadcast.hpp\<close> are parameterised by a size type \<^verbatim>\<open>S\<close>. It is
  modelled as a machine word \<open>'a word\<close> of any width: equality, \<open>+\<close>, \<open>-\<close> and \<open>*\<close> wrap
  around as unsigned C++ arithmetic does. \<^verbatim>\<open>array_shape<S>\<close> and \<^verbatim>\<open>array_strides<S>\<close> are
  declared in \<^verbatim>\<open>xindex.hpp\<close>; they are used as sequences with \<^verbatim>\<open>size\<close>, \<^verbatim>\<open>begin\<close>/\<^verbatim>\<open>end\<close>,
  \<^verbatim>\<open>rbegin\<close>/\<^verbatim>\<open>rend\<close>, \<^verbatim>\<open>operator[]\<close> and \<^verbatim>\<open>==\<close>, and are modelled as lists, outermost
  dimension first. Container sizes and loop counters over them are natural numbers.

  A \<^verbatim>\<open>throw\<close> is the outcome \<open>Inl IncompatibleShape\<close>. The two kinds of undefined
  behaviour that the code can reach are outcomes as well, and the model stops there: an
  access outside a sequence is \<open>Inl OutOfBounds\<close>, and the end of a function that is
  declared to return a value, reached without a \<^verbatim>\<open>return\<close>, is \<open>Inl MissingReturn\<close>.
\<close>

datatype error = IncompatibleShape | OutOfBounds | MissingReturn

subsection \<open>\<^verbatim>\<open>broadcast_dim\<close>\<close>

definition broadcast_dim :: "'a::len word list \<Rightarrow> 'a word" where
  "broadcast_dim dim_list = foldl (\<lambda>res dim. max dim res) 0 dim_list"

subsection \<open>\<^verbatim>\<open>broadcast_shape\<close>\<close>

text \<open>
  The loop of \<^verbatim>\<open>broadcast_shape\<close> walks \<^verbatim>\<open>input\<close> and \<^verbatim>\<open>output\<close> from their last elements
  with two reverse iterators. \<open>broadcast_loop ins outs seen t\<close> is the loop at the moment
  where \<open>ins\<close> is what the input iterator has still to visit (innermost first), \<open>outs\<close>
  what the output iterator has still to visit (innermost first), \<open>seen\<close> the part of
  \<^verbatim>\<open>output\<close> already visited, as it now stands (in storage order), and \<open>t\<close> the current
  value of \<^verbatim>\<open>trivial_broadcast\<close>. The result is the outcome (the returned flag or the
  error) together with \<^verbatim>\<open>output\<close> as the call leaves it: \<^verbatim>\<open>output\<close> is updated in place,
  so a dimension widened before a \<^verbatim>\<open>throw\<close> stays widened.

  The loop ends when the input is exhausted. Nothing compares the output iterator with
  \<^verbatim>\<open>output.rend()\<close>: when the input has more dimensions than the output, the iterator
  is dereferenced past the first element of \<^verbatim>\<open>output\<close>.
\<close>

fun broadcast_loop ::
  "'a::len word list \<Rightarrow> 'a word list \<Rightarrow> 'a word list \<Rightarrow> bool \<Rightarrow> (error + bool) \<times> 'a word list"
where
  "broadcast_loop [] outs seen t = (Inr t, rev outs @ seen)"
| "broadcast_loop (i # ins) [] seen t = (Inl OutOfBounds, seen)"
| "broadcast_loop (i # ins) (out # outs) seen t =
     (if out = 1 then broadcast_loop ins outs (i # seen) (t \<and> i = i)
      else if i \<noteq> 1 \<and> out \<noteq> i then (Inl IncompatibleShape, rev (out # outs) @ seen)
      else broadcast_loop ins outs (out # seen) (t \<and> out = i))"

definition broadcast_shape ::
  "'a::len word list \<Rightarrow> 'a word list \<Rightarrow> (error + bool) \<times> 'a word list"
where
  "broadcast_shape input output =
     broadcast_loop (rev input) (rev output) [] (length input = length output)"

subsection \<open>\<^verbatim>\<open>check_trivial_broadcast\<close>\<close>

definition check_trivial_broadcast :: "'a::len word list \<Rightarrow> 'a word list \<Rightarrow> bool" where
  "check_trivial_broadcast strides1 strides2 = (strides1 = strides2)"

subsection \<open>Vocabulary of the specification for shapes\<close>

text \<open>
  The right-aligned dimension pairs \<open>(in, out)\<close> of two shapes, innermost pair first.
  The shorter shape has no pair beyond its own rank.
\<close>

definition aligned_pairs :: "'a::len word list \<Rightarrow> 'a word list \<Rightarrow> ('a word \<times> 'a word) list" where
  "aligned_pairs input output = zip (rev input) (rev output)"

text \<open>A pair that cannot be broadcast: neither extent is 1 and they differ.\<close>

definition mismatch :: "'a::len word \<times> 'a word \<Rightarrow> bool" where
  "mismatch p = (snd p \<noteq> 1 \<and> fst p \<noteq> 1 \<and> fst p \<noteq> snd p)"

definition has_mismatch :: "'a::len word list \<Rightarrow> 'a word list \<Rightarrow> bool" where
  "has_mismatch input output = list_ex mismatch (aligned_pairs input output)"

text \<open>
  The triviality condition in the words of the specification: equal rank on entry and
  every aligned pair already equal.
\<close>

definition already_equal :: "'a::len word list \<Rightarrow> 'a word list \<Rightarrow> bool" where
  "already_equal input output =
     (length input = length output \<and> list_all (\<lambda>p. fst p = snd p) (aligned_pairs input output))"

text \<open>
  The condition the flag computes: equal rank on entry and every aligned pair either
  equal or with an output extent of 1.
\<close>

definition equal_or_widened :: "'a::len word list \<Rightarrow> 'a word list \<Rightarrow> bool" where
  "equal_or_widened input output =
     (length input = length output \<and>
      list_all (\<lambda>p. snd p = 1 \<or> fst p = snd p) (aligned_pairs input output))"

text \<open>Two shapes are broadcast-compatible when no aligned pair is a mismatch.\<close>

definition broadcast_compatible :: "'a::len word list \<Rightarrow> 'a word list \<Rightarrow> bool" where
  "broadcast_compatible A B = (\<not> has_mismatch B A)"

text \<open>
  The fold of the specification's property: the accumulator starts at \<open>A\<close>'s own shape,
  \<open>A\<close> is folded into it, then \<open>B\<close>; a call that fails ends the fold.
\<close>

definition fold_A_then_B :: "'a::len word list \<Rightarrow> 'a word list \<Rightarrow> (error + bool) \<times> 'a word list" where
  "fold_A_then_B A B =
     (case broadcast_shape A A of
        (Inl e, acc) \<Rightarrow> (Inl e, acc)
      | (Inr t, acc) \<Rightarrow> broadcast_shape B acc)"

text \<open>
  The \<open>i\<close>-th trailing dimension of a shape, counted from the innermost; beyond the
  rank it is the implicit leading extent 1.
\<close>

definition trailing_dim :: "'a::len word list \<Rightarrow> nat \<Rightarrow> 'a word" where
  "trailing_dim shape i = (if i < length shape then rev shape ! i else 1)"

text \<open>What one step of the loop leaves in an output dimension \<open>out\<close> met with \<open>i\<close>.\<close>

definition widen :: "'a::len word \<times> 'a word \<Rightarrow> 'a word" where
  "widen p = (if snd p = 1 then fst p else snd p)"

subsection \<open>\<^verbatim>\<open>broadcasting_iterator\<close>\<close>

text \<open>
  The cursor holds its sub-iterator \<^verbatim>\<open>m_iter\<close> and two stride sequences. The
  sub-iterator \<^verbatim>\<open>I\<close> is modelled by its position: the offset, in elements, from the start
  of the buffer it walks, a value of the sub-iterator's \<^verbatim>\<open>difference_type\<close>. That type is
  a second word type \<open>'d word\<close>, of a width of its own (that of \<^verbatim>\<open>std::ptrdiff_t\<close> for a
  pointer or a standard container's iterator), read as two's complement: a position
  before the start of the buffer is a negative offset. \<^verbatim>\<open>m_iter += s\<close> and
  \<^verbatim>\<open>m_iter -= s\<close> take the stride \<open>s\<close>, a value of \<^verbatim>\<open>S\<close>, into the difference type
  (\<open>ucast\<close>: the same number where it fits, as for a narrower \<^verbatim>\<open>S\<close>) and add or
  subtract there; nothing wraps at the width of \<^verbatim>\<open>S\<close>.
\<close>

record (overloaded) ('a :: len, 'd :: len) broadcasting_iterator =
  m_iter :: "'d word"
  m_strides :: "'a word list"
  m_backstrides :: "'a word list"

text \<open>
  \<^verbatim>\<open>std::transform(first1, last1, first2, d_first, op)\<close>: for every element of the first
  range, in order, \<^verbatim>\<open>op\<close> of it and of the next element of the second range is written
  to the next place of the destination. The second range and the destination must be
  at least as long as the first.
\<close>

definition transform :: "'x list \<Rightarrow> 'y list \<Rightarrow> 'z list \<Rightarrow> ('x \<Rightarrow> 'y \<Rightarrow> 'z) \<Rightarrow> error + 'z list" where
  "transform xs ys dst op =
     (if length ys < length xs \<or> length dst < length xs then Inl OutOfBounds
      else Inr (map2 op xs ys @ drop (length xs) dst))"

text \<open>
  The constructor takes \<^verbatim>\<open>strides\<close> by rvalue reference and initialises
  \<^verbatim>\<open>m_strides(std::move(strides))\<close>, then \<^verbatim>\<open>m_backstrides(shape.size())\<close> (that many
  zeros); its body then reads \<^verbatim>\<open>strides.begin()\<close> to \<^verbatim>\<open>strides.end()\<close>, that is the
  argument after it has been moved from. What a moved-from \<^verbatim>\<open>array_strides<S>\<close> holds is
  decided by its declaration in \<^verbatim>\<open>xindex.hpp\<close>, which is not among the sources: it is the
  parameter \<open>moved_from\<close> of the model, the function from the contents of a sequence to
  what is left in it once it has been moved into another. Two candidates are named:
  \<open>moved_from_vector\<close> for a \<^verbatim>\<open>std::vector\<close>, which move construction leaves empty, and
  \<open>moved_from_intact\<close> for a container that move construction leaves as it was.

  The lambda computes \<^verbatim>\<open>stride * shape - 1\<close>, which C++ reads as
  \<^verbatim>\<open>(stride * shape) - 1\<close>.
\<close>

definition moved_from_vector :: "'b list \<Rightarrow> 'b list" where
  "moved_from_vector xs = []"

definition moved_from_intact :: "'b list \<Rightarrow> 'b list" where
  "moved_from_intact xs = xs"

definition new_broadcasting_iterator ::
  "('a::len word list \<Rightarrow> 'a word list) \<Rightarrow> 'd::len word \<Rightarrow> 'a word list \<Rightarrow> 'a word list
     \<Rightarrow> error + ('a, 'd) broadcasting_iterator"
where
  "new_broadcasting_iterator moved_from iter strides shape =
     (case transform (moved_from strides) shape (replicate (length shape) 0)
             (\<lambda>stride shape. if stride \<noteq> 0 then stride * shape - 1 else 0) of
        Inl e \<Rightarrow> Inl e
      | Inr backstrides \<Rightarrow>
          Inr \<lparr>m_iter = iter, m_strides = strides, m_backstrides = backstrides\<rparr>)"

text \<open>
  \<^verbatim>\<open>operator*\<close> dereferences the sub-iterator: the element of the buffer at the cursor's
  position. The buffer is the list of its elements.
\<close>

definition operator_star :: "'e list \<Rightarrow> ('a::len, 'd::len) broadcasting_iterator \<Rightarrow> error + 'e" where
  "operator_star buffer c =
     (if unat (m_iter c) < length buffer then Inr (buffer ! unat (m_iter c))
      else Inl OutOfBounds)"

definition increment ::
  "('a::len, 'd::len) broadcasting_iterator \<Rightarrow> nat \<Rightarrow> error + ('a, 'd) broadcasting_iterator"
where
  "increment c dim =
     (if dim < length (m_strides c)
      then Inr (c\<lparr>m_iter := m_iter c + ucast (m_strides c ! dim)\<rparr>)
      else Inl OutOfBounds)"

definition reset ::
  "('a::len, 'd::len) broadcasting_iterator \<Rightarrow> nat \<Rightarrow> error + ('a, 'd) broadcasting_iterator"
where
  "reset c dim =
     (if dim < length (m_backstrides c)
      then Inr (c\<lparr>m_iter := m_iter c - ucast (m_backstrides c ! dim)\<rparr>)
      else Inl OutOfBounds)"

subsection \<open>\<^verbatim>\<open>multi_iterator\<close>\<close>

text \<open>
  The tuple of cursors is the list of them; all share the size type \<^verbatim>\<open>S\<close> and, in the
  model, the difference type.
\<close>

record (overloaded) ('a :: len, 'd :: len) multi_iterator =
  m_iterator :: "('a, 'd) broadcasting_iterator list"
  m_shape :: "'a word list"
  m_index :: "'a word list"

definition new_multi_iterator ::
  "('a::len, 'd::len) broadcasting_iterator list \<Rightarrow> 'a word list \<Rightarrow> ('a, 'd) multi_iterator"
where
  "new_multi_iterator iterator shape =
     \<lparr>m_iterator = iterator, m_shape = shape, m_index = replicate (length shape) 0\<rparr>"

text \<open>
  Modelled from the spec: \<^verbatim>\<open>for_each\<close> over a tuple is declared in \<^verbatim>\<open>utils.hpp\<close>, which is
  not among the sources. The specification has the same call made on every owned
  cursor; the model makes it on each in turn and stops at the first that fails.
\<close>

fun for_each :: "('c \<Rightarrow> error + 'c) \<Rightarrow> 'c list \<Rightarrow> error + 'c list" where
  "for_each fn [] = Inr []"
| "for_each fn (c # cs) =
     (case fn c of
        Inl e \<Rightarrow> Inl e
      | Inr c' \<Rightarrow> (case for_each fn cs of Inl e \<Rightarrow> Inl e | Inr cs' \<Rightarrow> Inr (c' # cs')))"

definition multi_increment :: "('a::len, 'd::len) multi_iterator \<Rightarrow> nat \<Rightarrow> error + ('a, 'd) multi_iterator" where
  "multi_increment m i =
     (case for_each (\<lambda>iter. increment iter i) (m_iterator m) of
        Inl e \<Rightarrow> Inl e
      | Inr cs \<Rightarrow> Inr (m\<lparr>m_iterator := cs\<rparr>))"

definition multi_reset :: "('a::len, 'd::len) multi_iterator \<Rightarrow> nat \<Rightarrow> error + ('a, 'd) multi_iterator" where
  "multi_reset m i =
     (case for_each (\<lambda>iter. reset iter i) (m_iterator m) of
        Inl e \<Rightarrow> Inl e
      | Inr cs \<Rightarrow> Inr (m\<lparr>m_iterator := cs\<rparr>))"

text \<open>
  The loop of \<^verbatim>\<open>operator++\<close>, for \<^verbatim>\<open>j\<close> counting down: \<open>increment_loop j m\<close> runs it from
  the test \<^verbatim>\<open>j != 0\<close> on and returns the value of \<^verbatim>\<open>j\<close> with which the loop is left
  together with the members as they then stand. After a \<^verbatim>\<open>break\<close> that value is
  positive; it is \<open>0\<close> when every dimension has overflowed and the carry has gone past
  the outermost one.
\<close>

fun increment_loop :: "nat \<Rightarrow> ('a::len, 'd::len) multi_iterator \<Rightarrow> error + (nat \<times> ('a, 'd) multi_iterator)" where
  "increment_loop 0 m = Inr (0, m)"
| "increment_loop (Suc i) m =
     (if length (m_index m) \<le> i \<or> length (m_shape m) \<le> i then Inl OutOfBounds
      else
        let m1 = m\<lparr>m_index := (m_index m)[i := m_index m ! i + 1]\<rparr> in
        if m_index m1 ! i \<noteq> m_shape m1 ! i then
          (case multi_increment m1 i of
             Inl e \<Rightarrow> Inl e
           | Inr m2 \<Rightarrow> Inr (Suc i, m2))
        else
          (case multi_reset (m1\<lparr>m_index := (m_index m1)[i := 0]\<rparr>) i of
             Inl e \<Rightarrow> Inl e
           | Inr m2 \<Rightarrow> increment_loop i m2))"

text \<open>
  \<^verbatim>\<open>operator++\<close> is declared to return \<^verbatim>\<open>multi_iterator&\<close>. Its body is the loop and nothing
  else: there is no \<^verbatim>\<open>return\<close> statement, so every call that gets through the loop runs
  off the end of a function that must return a value, and no call has a result.
\<close>

definition operator_increment ::
  "('a::len, 'd::len) multi_iterator \<Rightarrow> error + ('a, 'd) multi_iterator"
where
  "operator_increment m =
     (case increment_loop (length (m_index m)) m of
        Inl e \<Rightarrow> Inl e
      | Inr (j, m') \<Rightarrow> Inl MissingReturn)"

text \<open>
  \<^verbatim>\<open>data<N>()\<close> returns \<^verbatim>\<open>std::get<N>(m_iterator)\<close>: the \<open>N\<close>-th cursor of the tuple.
\<close>

definition data :: "('a::len, 'd::len) multi_iterator \<Rightarrow> nat \<Rightarrow> error + ('a, 'd) broadcasting_iterator" where
  "data m N =
     (if N < length (m_iterator m) then Inr (m_iterator m ! N) else Inl OutOfBounds)"

subsection \<open>Vocabulary of the specification for traversals\<close>

text \<open>The backstride as the data model of the specification defines it.\<close>

definition spec_backstride :: "'a::len word \<Rightarrow> 'a word \<Rightarrow> 'a word" where
  "spec_backstride stride extent = (if stride \<noteq> 0 then stride * (extent - 1) else 0)"

text \<open>\<open>k\<close> calls of \<^verbatim>\<open>increment(dim)\<close> on a cursor, one after the other.\<close>

fun advance_times :: "nat \<Rightarrow> nat \<Rightarrow> ('a::len, 'd::len) broadcasting_iterator \<Rightarrow> error + ('a, 'd) broadcasting_iterator" where
  "advance_times 0 dim c = Inr c"
| "advance_times (Suc k) dim c =
     (case increment c dim of Inl e \<Rightarrow> Inl e | Inr c' \<Rightarrow> advance_times k dim c')"

text \<open>
  The record of \<open>k\<close> calls of \<^verbatim>\<open>operator++\<close>: for each call, the logical index and the
  cursors' positions at which it is made, and the value of \<^verbatim>\<open>j\<close> with which its loop is
  left (\<open>0\<close> for the call whose carry goes past the outermost dimension). The next call
  is made on the members as the loop has left them, as on a build in which running off
  the end of \<^verbatim>\<open>operator++\<close> does no harm.
\<close>

fun visits ::
  "nat \<Rightarrow> ('a::len, 'd::len) multi_iterator \<Rightarrow> error + ('a word list \<times> 'd word list \<times> nat) list"
where
  "visits 0 m = Inr []"
| "visits (Suc k) m =
     (case increment_loop (length (m_index m)) m of
        Inl e \<Rightarrow> Inl e
      | Inr (j, m') \<Rightarrow>
          (case visits k m' of
             Inl e \<Rightarrow> Inl e
           | Inr rest \<Rightarrow> Inr ((m_index m, map m_iter (m_iterator m), j) # rest)))"

text \<open>The invariant of the current index: one entry per dimension, each below its extent.\<close>

definition index_in_range :: "('a::len, 'd::len) multi_iterator \<Rightarrow> bool" where
  "index_in_range m = list_all2 (\<lambda>i extent. i < extent) (m_index m) (m_shape m)"

text \<open>Every owned cursor has a stride and a backstride for each logical dimension.\<close>

definition cursors_cover :: "('a::len, 'd::len) broadcasting_iterator list \<Rightarrow> 'a word list \<Rightarrow> bool" where
  "cursors_cover cs shape =
     list_all (\<lambda>c. length shape \<le> length (m_strides c) \<and> length shape \<le> length (m_backstrides c)) cs"

text \<open>
  The scenarios of the specification's properties. \<open>build_cursors\<close> constructs one
  cursor per operand, given as its starting position and its strides, over the logical
  shape. \<open>traverse\<close> owns them in a multi-cursor over that shape and records \<open>k\<close> calls
  of \<^verbatim>\<open>operator++\<close>. \<open>advance_then_reset count c\<close> calls \<^verbatim>\<open>increment(0)\<close> \<open>count\<close> times
  and \<^verbatim>\<open>reset(0)\<close> once on the cursor \<open>c\<close> and returns the position reached;
  \<open>round_trip\<close> does so, with \<open>n\<close> advances, on the cursor constructed over the
  one-dimensional shape \<open>[n]\<close> with stride \<open>k\<close>.
\<close>

fun build_cursors ::
  "('a::len word list \<Rightarrow> 'a word list) \<Rightarrow> ('d::len word \<times> 'a word list) list \<Rightarrow> 'a word list
     \<Rightarrow> error + ('a, 'd) broadcasting_iterator list"
where
  "build_cursors moved_from [] shape = Inr []"
| "build_cursors moved_from ((iter, strides) # rest) shape =
     (case new_broadcasting_iterator moved_from iter strides shape of
        Inl e \<Rightarrow> Inl e
      | Inr c \<Rightarrow>
          (case build_cursors moved_from rest shape of
             Inl e \<Rightarrow> Inl e
           | Inr cs \<Rightarrow> Inr (c # cs)))"

definition traverse ::
  "('a::len word list \<Rightarrow> 'a word list) \<Rightarrow> ('d::len word \<times> 'a word list) list \<Rightarrow> 'a word list \<Rightarrow> nat
     \<Rightarrow> error + ('a word list \<times> 'd word list \<times> nat) list"
where
  "traverse moved_from operands shape k =
     (case build_cursors moved_from operands shape of
        Inl e \<Rightarrow> Inl e
      | Inr cs \<Rightarrow> visits k (new_multi_iterator cs shape))"

definition advance_then_reset ::
  "nat \<Rightarrow> ('a::len, 'd::len) broadcasting_iterator \<Rightarrow> error + 'd word"
where
  "advance_then_reset count c =
     (case advance_times count 0 c of
        Inl e \<Rightarrow> Inl e
      | Inr c1 \<Rightarrow> (case reset c1 0 of Inl e \<Rightarrow> Inl e | Inr c2 \<Rightarrow> Inr (m_iter c2)))"

definition round_trip ::
  "('a::len word list \<Rightarrow> 'a word list) \<Rightarrow> 'd::len word \<Rightarrow> 'a word \<Rightarrow> 'a word \<Rightarrow> error + 'd word"
where
  "round_trip moved_from start k n =
     (case new_broadcasting_iterator moved_from start [k] [n] of
        Inl e \<Rightarrow> Inl e
      | Inr c \<Rightarrow> advance_then_reset (unat n) c)"

section \<open>The shape broadcaster\<close>

lemma broadcast_loop_length:
  "length ins \<le> length outs \<Longrightarrow>
     length (snd (broadcast_loop ins outs seen t)) = length outs + length seen"
  by (induction ins outs seen t rule: broadcast_loop.induct) auto

lemma broadcast_loop_outcome:
  "fst (broadcast_loop ins outs seen t) =
     (if list_ex mismatch (zip ins outs) then Inl IncompatibleShape
      else if length outs < length ins then Inl OutOfBounds
      else Inr (t \<and> list_all (\<lambda>p. snd p = 1 \<or> fst p = snd p) (zip ins outs)))"
  by (induction ins outs seen t rule: broadcast_loop.induct) (auto simp: mismatch_def)

lemma broadcast_loop_output:
  "length ins \<le> length outs \<Longrightarrow> \<not> list_ex mismatch (zip ins outs) \<Longrightarrow>
     snd (broadcast_loop ins outs seen t) =
       rev (drop (length ins) outs) @ rev (map widen (zip ins outs)) @ seen"
  by (induction ins outs seen t rule: broadcast_loop.induct) (auto simp: mismatch_def widen_def)

lemma broadcast_loop_same:
  "broadcast_loop xs xs seen t = (Inr t, rev xs @ seen)"
  by (induction xs arbitrary: seen t) auto

lemma broadcast_shape_same: "broadcast_shape A A = (Inr True, A)"
  by (simp add: broadcast_shape_def broadcast_loop_same)

lemma broadcast_shape_outcome:
  "fst (broadcast_shape input output) =
     (if has_mismatch input output then Inl IncompatibleShape
      else if length output < length input then Inl OutOfBounds
      else Inr (equal_or_widened input output))"
  by (simp add: broadcast_shape_def broadcast_loop_outcome has_mismatch_def
      aligned_pairs_def equal_or_widened_def)

lemma broadcast_shape_output:
  "length input \<le> length output \<Longrightarrow> \<not> has_mismatch input output \<Longrightarrow>
     rev (snd (broadcast_shape input output)) =
       map widen (zip (rev input) (rev output)) @ drop (length input) (rev output)"
  by (simp add: broadcast_shape_def broadcast_loop_output has_mismatch_def aligned_pairs_def)

lemma broadcast_shape_length:
  "length input \<le> length output \<Longrightarrow> length (snd (broadcast_shape input output)) = length output"
  by (simp add: broadcast_shape_def broadcast_loop_length)

lemma widen_all_fst:
  "length ins = length outs \<Longrightarrow>
     (map widen (zip ins outs) = ins) = list_all (\<lambda>p. snd p = 1 \<or> fst p = snd p) (zip ins outs)"
  by (induction ins outs rule: list_induct2) (auto simp: widen_def)

lemma flag_iff_output_is_input:
  assumes ok: "fst (broadcast_shape input output) = Inr t"
  shows "t = (snd (broadcast_shape input output) = input)"
proof (cases "length input = length output")
  case False
  have le: "length input \<le> length output"
    using ok by (simp add: broadcast_shape_outcome split: if_splits)
  then have "length (snd (broadcast_shape input output)) = length output"
    by (rule broadcast_shape_length)
  then have "snd (broadcast_shape input output) \<noteq> input"
    using False by auto
  moreover have "\<not> t"
    using ok False by (simp add: broadcast_shape_outcome equal_or_widened_def split: if_splits)
  ultimately show ?thesis by simp
next
  case True
  have nm: "\<not> has_mismatch input output"
    using ok by (simp add: broadcast_shape_outcome split: if_splits)
  have out: "rev (snd (broadcast_shape input output)) = map widen (zip (rev input) (rev output))"
    using True nm by (simp add: broadcast_shape_output)
  have t: "t = list_all (\<lambda>p. snd p = 1 \<or> fst p = snd p) (zip (rev input) (rev output))"
    using ok True
    by (simp add: broadcast_shape_outcome equal_or_widened_def aligned_pairs_def split: if_splits)
  have "(snd (broadcast_shape input output) = input) =
        (rev (snd (broadcast_shape input output)) = rev input)"
    by simp
  then show ?thesis
    using out t True widen_all_fst [of "rev input" "rev output"] by simp
qed

text \<open>
  C1, as the code has it. For a call whose input has at most as many dimensions as the
  output, the call throws the incompatible-shape error exactly when some right-aligned
  pair \<open>(in, out)\<close> has \<open>out \<noteq> 1\<close>, \<open>in \<noteq> 1\<close> and \<open>in \<noteq> out\<close>, and in every other
  case it returns a flag.
\<close>

theorem broadcast_shape_throws_iff_mismatch:
  "length input \<le> length output \<Longrightarrow>
     (fst (broadcast_shape input output) = Inl IncompatibleShape \<longleftrightarrow> has_mismatch input output)
     \<and> (\<not> has_mismatch input output \<longrightarrow> (\<exists>t. fst (broadcast_shape input output) = Inr t))"
  by (simp add: broadcast_shape_outcome)

theorem broadcast_shape_throws_iff_mismatch_witness:
  "length [4, 3 :: 64 word] \<le> length [2, 5, 1 :: 64 word]
   \<and> has_mismatch [4, 3] [2, 5, 1 :: 64 word]
   \<and> fst (broadcast_shape [4, 3] [2, 5, 1 :: 64 word]) = Inl IncompatibleShape
   \<and> length [4, 3 :: 64 word] \<le> length [2, 1, 3 :: 64 word]
   \<and> \<not> has_mismatch [4, 3] [2, 1, 3 :: 64 word]
   \<and> (\<exists>t. fst (broadcast_shape [4, 3] [2, 1, 3 :: 64 word]) = Inr t)"
  using broadcast_shape_throws_iff_mismatch [of "[4, 3 :: 64 word]" "[2, 5, 1 :: 64 word]"]
    broadcast_shape_throws_iff_mismatch [of "[4, 3 :: 64 word]" "[2, 1, 3 :: 64 word]"]
  by (simp add: has_mismatch_def aligned_pairs_def mismatch_def)

text \<open>
  C1 as stated fails for an input of higher rank than the output: the shapes \<open>[2, 3]\<close>
  and \<open>[3]\<close> have no mismatching pair, and the call neither throws the error nor
  returns: after the one pair the output iterator is read past the first element.
\<close>

theorem broadcast_shape_longer_input_counterexample:
  "\<not> has_mismatch [2, 3] [3 :: 64 word]
   \<and> fst (broadcast_shape [2, 3] [3 :: 64 word]) = Inl OutOfBounds"
  by (simp add: has_mismatch_def aligned_pairs_def mismatch_def broadcast_shape_def)

text \<open>
  C2, as the code has it. The flag of a call that returns is true exactly when input
  and output had equal rank on entry and every right-aligned pair was equal or had an
  output extent of 1 on entry; that is, exactly when the call leaves the output equal
  to the input. The comparison is made after the assignment that widens, so widening
  an extent of 1 does not clear the flag.
\<close>

theorem broadcast_shape_flag:
  "fst (broadcast_shape input output) = Inr t \<Longrightarrow>
     t = equal_or_widened input output \<and> t = (snd (broadcast_shape input output) = input)"
  using flag_iff_output_is_input [of input "output" t]
  by (simp add: broadcast_shape_outcome split: if_splits)

theorem broadcast_shape_flag_witness:
  "fst (broadcast_shape [1, 3] [2, 3 :: 64 word]) = Inr False
   \<and> \<not> equal_or_widened [1, 3] [2, 3 :: 64 word]
   \<and> snd (broadcast_shape [1, 3] [2, 3 :: 64 word]) = [2, 3]
   \<and> fst (broadcast_shape [2, 3] [1, 3 :: 64 word]) = Inr True
   \<and> equal_or_widened [2, 3] [1, 3 :: 64 word]
   \<and> snd (broadcast_shape [2, 3] [1, 3 :: 64 word]) = [2, 3]"
  using broadcast_shape_flag [of "[1, 3 :: 64 word]" "[2, 3 :: 64 word]" False]
    broadcast_shape_flag [of "[2, 3 :: 64 word]" "[1, 3 :: 64 word]" True]
  by (simp add: broadcast_shape_def equal_or_widened_def aligned_pairs_def)

text \<open>
  C2 as stated fails where the call widens: for input \<open>[3]\<close> and output \<open>[1]\<close> the
  ranks are equal, the pair \<open>(3, 1)\<close> is not equal on entry, and the flag is true.
\<close>

theorem broadcast_shape_flag_counterexample:
  "fst (broadcast_shape [3] [1 :: 64 word]) = Inr True \<and> \<not> already_equal [3] [1 :: 64 word]"
  by (simp add: broadcast_shape_def already_equal_def aligned_pairs_def)

text \<open>
  C9. When the input has at most as many dimensions as the output, \<^verbatim>\<open>output\<close> has the
  same number of dimensions after the call as before it, whether the call returns a
  flag or throws: only extents are overwritten.
\<close>

theorem broadcast_shape_keeps_rank:
  "length input \<le> length output \<Longrightarrow>
     length (snd (broadcast_shape input output)) = length output"
  by (simp add: broadcast_shape_def broadcast_loop_length)

theorem broadcast_shape_keeps_rank_witness:
  "length [4, 3 :: 64 word] \<le> length [2, 5, 1 :: 64 word]
   \<and> fst (broadcast_shape [4, 3] [2, 5, 1 :: 64 word]) = Inl IncompatibleShape
   \<and> snd (broadcast_shape [4, 3] [2, 5, 1 :: 64 word]) = [2, 5, 3]
   \<and> length (snd (broadcast_shape [4, 3] [2, 5, 1 :: 64 word])) = length [2, 5, 1 :: 64 word]"
  using broadcast_shape_keeps_rank [of "[4, 3 :: 64 word]" "[2, 5, 1 :: 64 word]"]
  by (simp add: broadcast_shape_def)

lemma fold_A_then_B_eq: "fold_A_then_B A B = broadcast_shape B A"
  by (simp add: fold_A_then_B_def broadcast_shape_same)

lemma word_one_le: "(b :: 'a::len word) \<noteq> 0 \<Longrightarrow> 1 \<le> b"
  using inc_le [of 0 b] by (simp add: word_gt_0)

lemma word_max_one:
  "(b :: 'a::len word) \<noteq> 0 \<Longrightarrow> max 1 b = b"
  "(b :: 'a::len word) \<noteq> 0 \<Longrightarrow> max b 1 = b"
  using word_one_le [of b] by (simp_all add: max_def)

lemma trailing_dim_result:
  assumes le: "length B \<le> length A" and nm: "\<not> has_mismatch B A" and i: "i < length A"
  shows "trailing_dim (snd (broadcast_shape B A)) i =
           (if trailing_dim A i = 1 then trailing_dim B i else trailing_dim A i)"
proof -
  have len: "length (snd (broadcast_shape B A)) = length A"
    using le by (rule broadcast_shape_length)
  have r: "rev (snd (broadcast_shape B A)) =
             map widen (zip (rev B) (rev A)) @ drop (length B) (rev A)"
    using le nm by (rule broadcast_shape_output)
  show ?thesis
  proof (cases "i < length B")
    case True
    then have "rev (snd (broadcast_shape B A)) ! i = widen (rev B ! i, rev A ! i)"
      using r i by (simp add: nth_append)
    then show ?thesis using True i len by (simp add: trailing_dim_def widen_def)
  next
    case False
    then have "rev (snd (broadcast_shape B A)) ! i = rev A ! i"
      using r i le by (simp add: nth_append)
    then show ?thesis using False i len by (simp add: trailing_dim_def)
  qed
qed

lemma compatible_pair:
  assumes nm: "\<not> has_mismatch B A" and i: "i < length A"
  shows "trailing_dim A i = 1 \<or> trailing_dim B i = 1 \<or> trailing_dim B i = trailing_dim A i"
proof (cases "i < length B")
  case True
  then have "(rev B ! i, rev A ! i) \<in> set (zip (rev B) (rev A))"
    using i by (metis in_set_zip fst_conv snd_conv length_rev)
  then have "\<not> mismatch (rev B ! i, rev A ! i)"
    using nm by (auto simp: has_mismatch_def aligned_pairs_def list_ex_iff)
  then show ?thesis using True i by (auto simp: trailing_dim_def mismatch_def)
next
  case False
  then show ?thesis by (simp add: trailing_dim_def)
qed

text \<open>
  C4, as the code has it. For broadcast-compatible shapes \<open>A\<close> and \<open>B\<close> where \<open>B\<close> has at
  most as many dimensions as \<open>A\<close>, the fold that starts the accumulator at \<open>A\<close> and
  folds \<open>A\<close>, then \<open>B\<close>, into it returns; the accumulator then has rank
  \<open>max (rank A) (rank B)\<close>, and its \<open>i\<close>-th trailing dimension is \<open>B\<close>'s where \<open>A\<close>'s is 1
  and \<open>A\<close>'s otherwise (an absent leading dimension of \<open>B\<close> counting as 1). That is the
  maximum of the two whenever neither extent is 0.
\<close>

theorem fold_A_then_B_result:
  assumes "broadcast_compatible A B" and "length B \<le> length A"
  shows "\<exists>t R. fold_A_then_B A B = (Inr t, R)
           \<and> length R = max (length A) (length B)
           \<and> (\<forall>i < length R.
                 trailing_dim R i =
                   (if trailing_dim A i = 1 then trailing_dim B i else trailing_dim A i)
                 \<and> (trailing_dim A i \<noteq> 0 \<and> trailing_dim B i \<noteq> 0 \<longrightarrow>
                      trailing_dim R i = max (trailing_dim A i) (trailing_dim B i)))"
proof -
  have nm: "\<not> has_mismatch B A"
    using assms(1) by (simp add: broadcast_compatible_def)
  have le: "length B \<le> length A" by fact
  obtain t where t: "fst (broadcast_shape B A) = Inr t"
    using nm le by (simp add: broadcast_shape_outcome)
  define R where "R = snd (broadcast_shape B A)"
  have eq: "fold_A_then_B A B = (Inr t, R)"
    using t by (simp add: fold_A_then_B_eq R_def prod_eq_iff)
  have len: "length R = length A"
    using le by (simp add: R_def broadcast_shape_length)
  have dims: "trailing_dim R i =
                (if trailing_dim A i = 1 then trailing_dim B i else trailing_dim A i)"
    if "i < length A" for i
    using trailing_dim_result [OF le nm that] by (simp add: R_def)
  have mx: "trailing_dim R i = max (trailing_dim A i) (trailing_dim B i)"
    if "i < length A" and "trailing_dim A i \<noteq> 0" and "trailing_dim B i \<noteq> 0" for i
    using dims [OF that(1)] compatible_pair [OF nm that(1)] that(2,3)
    by (auto simp: word_max_one)
  show ?thesis
    using eq len le dims mx by (auto simp: max_def)
qed

theorem fold_A_then_B_result_witness:
  "broadcast_compatible [2, 1, 3] [4, 1 :: 64 word]
   \<and> length [4, 1 :: 64 word] \<le> length [2, 1, 3 :: 64 word]
   \<and> fold_A_then_B [2, 1, 3] [4, 1 :: 64 word] = (Inr False, [2, 4, 3])"
  using fold_A_then_B_result [of "[2, 1, 3 :: 64 word]" "[4, 1 :: 64 word]"]
  by (simp add: broadcast_compatible_def has_mismatch_def aligned_pairs_def mismatch_def
      fold_A_then_B_def broadcast_shape_def)

text \<open>
  C4 as stated fails in two places. With \<open>A = [3]\<close> and \<open>B = [2, 3]\<close> (compatible, \<open>B\<close> of
  higher rank) the fold does not return: the accumulator is never given a second
  dimension, and the call runs off its front. With \<open>A = [1]\<close> and \<open>B = [0]\<close> (compatible)
  the accumulator ends as \<open>[0]\<close>, while the maximum of the two extents is 1.
\<close>

theorem fold_A_then_B_counterexample:
  "broadcast_compatible [3] [2, 3 :: 64 word]
   \<and> fst (fold_A_then_B [3] [2, 3 :: 64 word]) = Inl OutOfBounds
   \<and> broadcast_compatible [1] [0 :: 64 word]
   \<and> fold_A_then_B [1] [0 :: 64 word] = (Inr True, [0])
   \<and> max (trailing_dim [1] 0) (trailing_dim [0 :: 64 word] 0) = 1"
  by (simp add: broadcast_compatible_def has_mismatch_def aligned_pairs_def mismatch_def
      fold_A_then_B_def broadcast_shape_def trailing_dim_def)

section \<open>The broadcasting cursor\<close>

text \<open>
  C3 at the strides \<open>[3, 1]\<close> over the shape \<open>[2, 3]\<close>. The data model gives the
  backstrides \<open>[3 * (2 - 1), 1 * (3 - 1)] = [3, 2]\<close>. The constructor stores
  \<open>[3 * 2 - 1, 1 * 3 - 1] = [5, 2]\<close> when the \<^verbatim>\<open>strides\<close> argument still holds its elements
  after the move, and \<open>[0, 0]\<close> when the move has emptied it.
\<close>

theorem constructor_backstrides_at_3_1:
  "new_broadcasting_iterator moved_from_intact (0 :: 64 word) [3, 1] [2, 3 :: 64 word]
     = Inr \<lparr>m_iter = 0, m_strides = [3, 1], m_backstrides = [5, 2]\<rparr>
   \<and> new_broadcasting_iterator moved_from_vector (0 :: 64 word) [3, 1] [2, 3 :: 64 word]
     = Inr \<lparr>m_iter = 0, m_strides = [3, 1], m_backstrides = [0, 0]\<rparr>
   \<and> map2 spec_backstride [3, 1] [2, 3 :: 64 word] = [3, 2]"
  by (simp add: new_broadcasting_iterator_def transform_def moved_from_vector_def
      moved_from_intact_def spec_backstride_def)

lemma advance_times_position:
  "dim < length (m_strides c) \<Longrightarrow>
     advance_times k dim c =
       Inr (c\<lparr>m_iter := m_iter c + of_nat k * ucast (m_strides c ! dim)\<rparr>)"
  by (induction k arbitrary: c) (simp_all add: increment_def algebra_simps)

text \<open>
  Where \<open>k * (n - 1)\<close> does not overflow the size type, the backstride of the data model,
  taken into the difference type, is \<open>n - 1\<close> times the stride taken there.
\<close>

lemma ucast_spec_backstride:
  fixes k n :: "'a::len word"
  assumes n: "n \<noteq> 0" and fits: "unat k * (unat n - 1) < 2 ^ LENGTH('a)"
  shows "(ucast (spec_backstride k n) :: 'd::len word) = of_nat (unat n - 1) * ucast k"
proof (cases "k = 0")
  case True
  then show ?thesis by (simp add: spec_backstride_def)
next
  case False
  have n1: "unat (n - 1) = unat n - 1"
    using n by (rule unat_minus_one)
  have "unat (k * (n - 1)) = unat k * unat (n - 1)"
    using fits n1 unat_mult_lem [of k "n - 1"] by simp
  then have "(of_nat (unat (k * (n - 1))) :: 'd word) = of_nat (unat k) * of_nat (unat n - 1)"
    using n1 by simp
  then have "(ucast (k * (n - 1)) :: 'd word) = ucast k * of_nat (unat n - 1)"
    by simp
  then show ?thesis
    using False by (simp add: spec_backstride_def mult.commute)
qed

text \<open>
  C6, as the design has it. A cursor over a one-dimensional shape of extent \<open>n > 0\<close>
  with stride \<open>k\<close> that holds the backstride of the data model, \<open>k * (n - 1)\<close>, a number
  that the size type can hold, is returned to its starting position by \<open>n - 1\<close> calls of
  \<^verbatim>\<open>increment(0)\<close> followed by one call of \<^verbatim>\<open>reset(0)\<close>: a dimension of extent \<open>n\<close> is
  left by \<open>n - 1\<close> advances.
\<close>

theorem advance_reset_round_trip:
  fixes c :: "('a::len, 'd::len) broadcasting_iterator"
  assumes "m_strides c = [k]" and "m_backstrides c = [spec_backstride k n]" and "n \<noteq> 0"
    and "unat k * (unat n - 1) < 2 ^ LENGTH('a)"
  shows "advance_then_reset (unat n - 1) c = Inr (m_iter c)"
proof -
  define c1 where "c1 = c\<lparr>m_iter := m_iter c + of_nat (unat n - 1) * ucast k\<rparr>"
  have adv: "advance_times (unat n - 1) 0 c = Inr c1"
    using assms(1) advance_times_position [of 0 c "unat n - 1"] by (simp add: c1_def)
  have bstr: "(ucast (m_backstrides c1 ! 0) :: 'd word) = of_nat (unat n - 1) * ucast k"
    using assms(2) ucast_spec_backstride [OF assms(3,4)] by (simp add: c1_def)
  have "reset c1 0 = Inr (c1\<lparr>m_iter := m_iter c1 - of_nat (unat n - 1) * ucast k\<rparr>)"
    using assms(2) bstr by (simp add: reset_def c1_def)
  moreover have "m_iter (c1\<lparr>m_iter := m_iter c1 - of_nat (unat n - 1) * ucast k\<rparr>) = m_iter c"
    by (simp add: c1_def)
  ultimately show ?thesis
    using adv by (simp add: advance_then_reset_def)
qed

theorem advance_reset_round_trip_witness:
  "m_strides \<lparr>m_iter = 7 :: 64 word, m_strides = [100], m_backstrides = [200 :: 8 word]\<rparr> = [100]
   \<and> m_backstrides \<lparr>m_iter = 7 :: 64 word, m_strides = [100], m_backstrides = [200 :: 8 word]\<rparr>
       = [spec_backstride 100 3]
   \<and> (3 :: 8 word) \<noteq> 0
   \<and> unat (100 :: 8 word) * (unat (3 :: 8 word) - 1) < 2 ^ LENGTH(8)
   \<and> advance_then_reset (unat (3 :: 8 word) - 1)
        \<lparr>m_iter = 7 :: 64 word, m_strides = [100], m_backstrides = [200 :: 8 word]\<rparr> = Inr 7"
  using advance_reset_round_trip
    [of "\<lparr>m_iter = 7 :: 64 word, m_strides = [100], m_backstrides = [200 :: 8 word]\<rparr>" 100 3]
  by (simp add: spec_backstride_def)

text \<open>
  Where \<open>k * (n - 1)\<close> overflows the size type the stored backstride is not that number
  and the cursor is not returned: with an 8-bit size type, stride 200 and extent 3, the
  backstride is stored as \<open>400 mod 256 = 144\<close>, and two advances and one reset from
  position 0 end at \<open>400 - 144 = 256\<close>.
\<close>

lemma narrow_size_type_overshoot:
  "spec_backstride 200 (3 :: 8 word) = 144
   \<and> advance_then_reset 2
        \<lparr>m_iter = 0 :: 64 word, m_strides = [200], m_backstrides = [144 :: 8 word]\<rparr> = Inr 256"
  by code_simp

text \<open>
  C6 as stated fails. A cursor constructed over the shape \<open>[3]\<close> with stride 2 at
  position 0 stands, after three advances and one reset, at position 1 when the
  constructor read the strides it was given (stored backstride \<open>2 * 3 - 1 = 5\<close>), and
  at position 6 when it read an emptied argument (stored backstride 0); not at 0. A
  cursor that holds the backstride of the data model, \<open>2 * (3 - 1) = 4\<close>, stands at
  position 2: three advances are one more than a reset undoes.
\<close>

theorem round_trip_counterexample:
  "round_trip moved_from_intact (0 :: 64 word) 2 (3 :: 64 word) = Inr 1
   \<and> round_trip moved_from_vector (0 :: 64 word) 2 (3 :: 64 word) = Inr 6
   \<and> advance_then_reset (unat (3 :: 64 word))
        \<lparr>m_iter = 0 :: 64 word, m_strides = [2],
         m_backstrides = [spec_backstride 2 (3 :: 64 word)]\<rparr>
       = Inr 2"
  by code_simp

section \<open>The multi-cursor\<close>

lemma for_each_increment:
  "cursors_cover cs shape \<Longrightarrow> i < length shape \<Longrightarrow>
     \<exists>cs'. for_each (\<lambda>iter. increment iter i) cs = Inr cs' \<and> cursors_cover cs' shape"
  by (induction cs) (auto simp: cursors_cover_def increment_def)

lemma for_each_reset:
  "cursors_cover cs shape \<Longrightarrow> i < length shape \<Longrightarrow>
     \<exists>cs'. for_each (\<lambda>iter. reset iter i) cs = Inr cs' \<and> cursors_cover cs' shape"
  by (induction cs) (auto simp: cursors_cover_def reset_def)

lemma multi_increment_ok:
  assumes "cursors_cover (m_iterator m) (m_shape m)" and "i < length (m_shape m)"
  shows "\<exists>cs'. multi_increment m i = Inr (m\<lparr>m_iterator := cs'\<rparr>) \<and> cursors_cover cs' (m_shape m)"
  using for_each_increment [OF assms] by (auto simp: multi_increment_def)

lemma multi_reset_ok:
  assumes "cursors_cover (m_iterator m) (m_shape m)" and "i < length (m_shape m)"
  shows "\<exists>cs'. multi_reset m i = Inr (m\<lparr>m_iterator := cs'\<rparr>) \<and> cursors_cover cs' (m_shape m)"
  using for_each_reset [OF assms] by (auto simp: multi_reset_def)

lemma word_succ_less:
  "(x :: 'a::len word) < y \<Longrightarrow> x + 1 \<noteq> y \<Longrightarrow> x + 1 < y"
  using inc_le [of x y] by simp

lemma word_pos_of_less: "(x :: 'a::len word) < y \<Longrightarrow> 0 < y"
  by (metis word_gt_0 word_not_simps(1))

lemma index_in_range_update:
  assumes "list_all2 (\<lambda>i extent. i < extent) idx shape" and "i < length shape"
    and "v < shape ! i"
  shows "list_all2 (\<lambda>i extent. i < extent) (idx[i := v]) shape"
  using list_all2_update_cong [OF assms(1), of v "shape ! i" i] assms(3) by simp

text \<open>
  The loop of \<^verbatim>\<open>operator++\<close> by itself keeps the index within the shape: entered with the
  index in range and with cursors that have a stride and a backstride for every
  dimension, it ends without an out-of-bounds access and leaves the index in range,
  however it is left.
\<close>

lemma increment_loop_ok:
  "j \<le> length (m_index m) \<Longrightarrow> index_in_range m \<Longrightarrow>
   cursors_cover (m_iterator m) (m_shape m) \<Longrightarrow>
     \<exists>j' m'. increment_loop j m = Inr (j', m') \<and> index_in_range m'
        \<and> cursors_cover (m_iterator m') (m_shape m') \<and> m_shape m' = m_shape m"
proof (induction j arbitrary: m)
  case 0
  then show ?case by simp
next
  case (Suc i)
  have len: "length (m_index m) = length (m_shape m)"
    using Suc.prems(2) by (simp add: index_in_range_def list_all2_lengthD)
  have i: "i < length (m_index m)" "i < length (m_shape m)"
    using Suc.prems(1) len by simp_all
  have lt: "m_index m ! i < m_shape m ! i"
    using Suc.prems(2) i by (simp add: index_in_range_def list_all2_nthD)
  show ?case
  proof (cases "m_index m ! i + 1 = m_shape m ! i")
    case False
    let ?m1 = "m\<lparr>m_index := (m_index m)[i := m_index m ! i + 1]\<rparr>"
    have inr: "index_in_range ?m1"
      using index_in_range_update [of "m_index m" "m_shape m" i "m_index m ! i + 1"]
        Suc.prems(2) i word_succ_less [OF lt False]
      by (simp add: index_in_range_def)
    obtain cs' where cs': "multi_increment ?m1 i = Inr (?m1\<lparr>m_iterator := cs'\<rparr>)"
        "cursors_cover cs' (m_shape m)"
      using multi_increment_ok [of ?m1 i] Suc.prems(3) i by auto
    show ?thesis
      using False i cs' inr by (simp add: Let_def index_in_range_def)
  next
    case True
    let ?m1 = "m\<lparr>m_index := (m_index m)[i := 0]\<rparr>"
    have inr: "index_in_range ?m1"
      using index_in_range_update [of "m_index m" "m_shape m" i 0]
        Suc.prems(2) i word_pos_of_less [OF lt]
      by (simp add: index_in_range_def)
    obtain cs' where cs': "multi_reset ?m1 i = Inr (?m1\<lparr>m_iterator := cs'\<rparr>)"
        "cursors_cover cs' (m_shape m)"
      using multi_reset_ok [of ?m1 i] Suc.prems(3) i by auto
    let ?m2 = "?m1\<lparr>m_iterator := cs'\<rparr>"
    have "\<exists>j' m'. increment_loop i ?m2 = Inr (j', m') \<and> index_in_range m'
        \<and> cursors_cover (m_iterator m') (m_shape m') \<and> m_shape m' = m_shape ?m2"
      using Suc.prems(1) inr cs'(2)
      by (intro Suc.IH) (simp_all add: index_in_range_def)
    then show ?thesis
      using True i cs'(1) by (simp add: Let_def)
  qed
qed

lemma new_multi_iterator_in_range:
  "list_all (\<lambda>extent. 0 < extent) shape \<Longrightarrow> index_in_range (new_multi_iterator cs shape)"
  by (induction shape) (simp_all add: index_in_range_def new_multi_iterator_def)

text \<open>
  A cursor constructed from as many strides as the shape has dimensions has a stride
  and a backstride for each of them, whatever the move left in the argument.
\<close>

lemma new_broadcasting_iterator_covers:
  "new_broadcasting_iterator moved_from iter strides shape = Inr c \<Longrightarrow>
   length strides = length shape \<Longrightarrow> cursors_cover [c] shape"
  by (auto simp: new_broadcasting_iterator_def transform_def cursors_cover_def
      split: if_splits)

text \<open>No call of \<^verbatim>\<open>operator++\<close> returns a multi-cursor.\<close>

lemma operator_increment_never_returns: "operator_increment m \<noteq> Inr m'"
  by (simp add: operator_increment_def split: sum.splits prod.splits)

text \<open>
  C8 on the code, for a multi-cursor over the shape \<open>[2, 3]\<close> that owns one cursor with
  strides \<open>[3, 1]\<close>, at its first call of \<^verbatim>\<open>operator++\<close>. The loop does what the claim
  expects: it moves the index from \<open>(0, 0)\<close> to \<open>(0, 1)\<close>, within the shape, and leaves
  through its \<^verbatim>\<open>break\<close>. The call then reaches the end of the function, which has no
  \<^verbatim>\<open>return\<close> statement for the reference it is declared to return: the call has no
  defined result, and there is no state after it for the invariant to hold in.
\<close>

theorem operator_increment_at_2x3:
  "increment_loop 2
     (new_multi_iterator
        [\<lparr>m_iter = 0 :: 64 word, m_strides = [3, 1], m_backstrides = [0, 0 :: 64 word]\<rparr>] [2, 3])
     = Inr (2, \<lparr>m_iterator = [\<lparr>m_iter = 1, m_strides = [3, 1], m_backstrides = [0, 0]\<rparr>],
                m_shape = [2, 3], m_index = [0, 1]\<rparr>)
   \<and> operator_increment
       (new_multi_iterator
          [\<lparr>m_iter = 0 :: 64 word, m_strides = [3, 1], m_backstrides = [0, 0 :: 64 word]\<rparr>] [2, 3])
     = Inl MissingReturn"
  by code_simp

text \<open>
  C5 on the code, for the shape \<open>[2, 3]\<close> and the operands with strides \<open>[3, 1]\<close> and
  \<open>[0, 1]\<close>, both starting at offset 0. Each entry is the logical index and the two
  offsets at which a call of \<^verbatim>\<open>operator++\<close> is made, and the \<^verbatim>\<open>j\<close> with which its loop is
  left. The six indices are in row-major order and the sixth call carries past the
  outermost dimension. With a \<^verbatim>\<open>strides\<close> argument that the move has emptied, every
  backstride is 0 and no reset moves a cursor: from the fourth position on, the offsets
  are 5, 6, 7 and 2, 3, 4.
\<close>

theorem traverse_2x3_emptied_strides:
  "traverse moved_from_vector [(0 :: 64 word, [3, 1]), (0, [0, 1])] [2, 3 :: 64 word] 6 =
     Inr [([0, 0], [0, 0], 2), ([0, 1], [1, 1], 2), ([0, 2], [2, 2], 1),
          ([1, 0], [5, 2], 2), ([1, 1], [6, 3], 2), ([1, 2], [7, 4], 0)]"
  by code_simp

text \<open>
  With a \<^verbatim>\<open>strides\<close> argument that keeps its elements, the backstrides are \<open>[5, 2]\<close> and
  \<open>[0, 2]\<close>; those of the inner dimension are the intended ones, since the stride there
  is 1, and the six offsets are \<open>0, 1, 2, 3, 4, 5\<close> and \<open>0, 1, 2, 0, 1, 2\<close>. The sixth
  call then leaves the first cursor at \<open>3 - 5\<close>, two elements before the buffer.
\<close>

lemma traverse_2x3_intact_strides:
  "traverse moved_from_intact [(0 :: 64 word, [3, 1]), (0, [0, 1])] [2, 3 :: 64 word] 7 =
     Inr [([0, 0], [0, 0], 2), ([0, 1], [1, 1], 2), ([0, 2], [2, 2], 1),
          ([1, 0], [3, 0], 2), ([1, 1], [4, 1], 2), ([1, 2], [5, 2], 0),
          ([0, 0], [- 2, 0], 2)]"
  by code_simp

text \<open>
  C7 on the code. \<^verbatim>\<open>data<0>()\<close> of a multi-cursor that owns one cursor at position 1 of
  the buffer \<open>10, 20, 30, 40, 50, 60\<close> is that cursor, as \<^verbatim>\<open>std::get<0>\<close> gives it;
  \<^verbatim>\<open>operator*\<close> of the cursor, which \<^verbatim>\<open>data\<close> does not apply, is the element 20.
\<close>

theorem data_is_the_cursor:
  "data (new_multi_iterator
           [\<lparr>m_iter = 1 :: 64 word, m_strides = [3, 1], m_backstrides = [0, 0 :: 64 word]\<rparr>]
           [2, 3]) 0
     = Inr \<lparr>m_iter = 1, m_strides = [3, 1], m_backstrides = [0, 0]\<rparr>
   \<and> operator_star [10, 20, 30, 40, 50, 60 :: int]
        \<lparr>m_iter = 1 :: 64 word, m_strides = [3, 1], m_backstrides = [0, 0 :: 64 word]\<rparr> = Inr 20"
  by (simp add: data_def new_multi_iterator_def operator_star_def)

end
